theory Spec2Isabelle
  imports Complex_Main
begin

section \<open>The watch-party client: data model\<close>

text \<open>
  The synchronisation engine lives in the \<^verbatim>\<open>WatchParty\<close> component of
  \<^verbatim>\<open>src/src/App.js\<close>. JavaScript numbers that carry times are modelled as
  exact reals, the snapshot version as an integer. The component's React state and its
  refs are the fields of one record that every handler takes and returns; what a handler
  does to the outside world (calls on the YouTube player, socket emissions,
  \<^verbatim>\<open>setTimeout\<close> calls with their delay in milliseconds, error notices)
  is appended to logs kept in the same record. The React state \<^verbatim>\<open>isPlaying\<close>
  is the field \<open>isPlayingUI\<close>, the snapshot having a field of that name as well.
\<close>

record snapshot =
  version :: int
  videoId :: "string option"
  isPlaying :: bool
  playbackTimeAtLastEvent :: real
  lastEventAt :: real
  serverTime :: real

text \<open>
  The YouTube player object is external. The model keeps what the component reads from
  it (\<^verbatim>\<open>getCurrentTime()\<close>) and, for each command the component issues,
  whether that call throws.
\<close>

record player =
  playerVideoId :: string
  getCurrentTime :: real
  seekToThrows :: bool
  playVideoThrows :: bool
  pauseVideoThrows :: bool
  destroyThrows :: bool

datatype surface_call = SeekTo real | PlayVideo | PauseVideo | Destroy

datatype intent =
    EmitPlay real
  | EmitPause real
  | EmitSeek real
  | EmitRequestSessionState

datatype callback = ClearApplyingServerUpdate | ClearLocalAction | InitPlayer

datatype notice = LogError string | ToastError string

record sock =
  connected :: bool

record wp_state =
  socket :: "sock option"
  currentVideoId :: string
  isPlayingUI :: bool
  playerReadyUI :: bool
  needsUserInteraction :: bool
  ytApi :: bool
  playerRef :: "player option"
  isPlayerReady :: bool
  latestSessionState :: "snapshot option"
  lastVersionRef :: int
  isLocalAction :: bool
  applyingServerUpdate :: bool
  isRequestingSync :: bool
  hasInteracted :: bool
  surfaceCalls :: "surface_call list"
  emitted :: "intent list"
  scheduled :: "(nat \<times> callback) list"
  notices :: "notice list"

text \<open>
  A handler either returns or is left by an exception. In both cases the mutations made
  so far stay, so both outcomes carry the state.
\<close>

datatype outcome = Returned wp_state | Threw wp_state

fun stateOf :: "outcome \<Rightarrow> wp_state" where
  "stateOf (Returned s) = s"
| "stateOf (Threw s) = s"

fun hasThrown :: "outcome \<Rightarrow> bool" where
  "hasThrown (Returned s) = False"
| "hasThrown (Threw s) = True"

fun andThen :: "outcome \<Rightarrow> (wp_state \<Rightarrow> outcome) \<Rightarrow> outcome" where
  "andThen (Returned s) f = f s"
| "andThen (Threw s) f = Threw s"

definition initialState :: wp_state where
  "initialState =
     \<lparr>socket = None, currentVideoId = [], isPlayingUI = False,
      playerReadyUI = False, needsUserInteraction = False, ytApi = False,
      playerRef = None, isPlayerReady = False, latestSessionState = None,
      lastVersionRef = 0, isLocalAction = False, applyingServerUpdate = False,
      isRequestingSync = False, hasInteracted = False,
      surfaceCalls = [], emitted = [], scheduled = [], notices = []\<rparr>"

section \<open>Calls on the outside world\<close>

definition seekTo :: "player \<Rightarrow> real \<Rightarrow> wp_state \<Rightarrow> outcome" where
  "seekTo p t s =
     (let s' = s\<lparr>surfaceCalls := surfaceCalls s @ [SeekTo t]\<rparr>
      in if seekToThrows p then Threw s' else Returned s')"

definition playVideo :: "player \<Rightarrow> wp_state \<Rightarrow> outcome" where
  "playVideo p s =
     (let s' = s\<lparr>surfaceCalls := surfaceCalls s @ [PlayVideo]\<rparr>
      in if playVideoThrows p then Threw s' else Returned s')"

definition pauseVideo :: "player \<Rightarrow> wp_state \<Rightarrow> outcome" where
  "pauseVideo p s =
     (let s' = s\<lparr>surfaceCalls := surfaceCalls s @ [PauseVideo]\<rparr>
      in if pauseVideoThrows p then Threw s' else Returned s')"

definition destroy :: "player \<Rightarrow> wp_state \<Rightarrow> outcome" where
  "destroy p s =
     (let s' = s\<lparr>surfaceCalls := surfaceCalls s @ [Destroy]\<rparr>
      in if destroyThrows p then Threw s' else Returned s')"

definition setTimeout :: "callback \<Rightarrow> nat \<Rightarrow> wp_state \<Rightarrow> wp_state" where
  "setTimeout cb ms s = s\<lparr>scheduled := scheduled s @ [(ms, cb)]\<rparr>"

definition emit :: "intent \<Rightarrow> wp_state \<Rightarrow> wp_state" where
  "emit i s = s\<lparr>emitted := emitted s @ [i]\<rparr>"

definition logError :: "string \<Rightarrow> wp_state \<Rightarrow> wp_state" where
  "logError m s = s\<lparr>notices := notices s @ [LogError m]\<rparr>"

definition toastError :: "string \<Rightarrow> wp_state \<Rightarrow> wp_state" where
  "toastError m s = s\<lparr>notices := notices s @ [ToastError m]\<rparr>"

section \<open>Helper functions of the component\<close>

text \<open>\<^verbatim>\<open>computeTargetTime\<close>, lines 90 to 98.\<close>

definition computeTargetTime :: "snapshot \<Rightarrow> real" where
  "computeTargetTime snap =
     (if \<not> isPlaying snap then playbackTimeAtLastEvent snap
      else
        let elapsedMs = serverTime snap - lastEventAt snap
        in playbackTimeAtLastEvent snap + elapsedMs / 1000)"

text \<open>\<^verbatim>\<open>applySnapshot\<close>, lines 109 to 145. No call is guarded by a
  \<^verbatim>\<open>try\<close>, so a throwing player call leaves the function at once.\<close>

definition applySnapshot :: "snapshot \<Rightarrow> wp_state \<Rightarrow> outcome" where
  "applySnapshot snap s =
     (case playerRef s of
        None \<Rightarrow> Returned (s\<lparr>latestSessionState := Some snap\<rparr>)
      | Some p \<Rightarrow>
          if \<not> isPlayerReady s then Returned (s\<lparr>latestSessionState := Some snap\<rparr>)
          else
            let s1 = s\<lparr>applyingServerUpdate := True\<rparr>;
                targetTime = computeTargetTime snap;
                currentTime = getCurrentTime p;
                drift = \<bar>targetTime - currentTime\<bar>
            in andThen (if drift > 0.35 then seekTo p targetTime s1 else Returned s1)
                 (\<lambda>s2. andThen
                    (if isPlaying snap
                     then andThen (playVideo p s2) (\<lambda>s3. Returned (s3\<lparr>isPlayingUI := True\<rparr>))
                     else andThen (pauseVideo p s2) (\<lambda>s3. Returned (s3\<lparr>isPlayingUI := False\<rparr>)))
                    (\<lambda>s4. Returned (setTimeout ClearApplyingServerUpdate 200 s4))))"


section \<open>The session:state listener\<close>

text \<open>
  Lines 288 to 319: the four cases the listener runs once the version filter, the video
  change block and the readiness check have let the snapshot through.
\<close>

definition disposition :: "snapshot \<Rightarrow> wp_state \<Rightarrow> outcome" where
  "disposition snap s =
     (if isRequestingSync s \<and> playerRef s \<noteq> None \<and> isPlayerReady s then
        andThen (applySnapshot snap s) (\<lambda>s'. Returned (s'\<lparr>isRequestingSync := False\<rparr>))
      else if isPlaying snap \<and> \<not> hasInteracted s then
        Returned (s\<lparr>needsUserInteraction := True, latestSessionState := Some snap\<rparr>)
      else if playerRef s \<noteq> None \<and> isPlayerReady s
              \<and> \<not> applyingServerUpdate s \<and> \<not> isLocalAction s then
        applySnapshot snap s
      else Returned s)"

text \<open>
  Lines 268 to 278. The listener is registered by an effect that depends on
  \<^verbatim>\<open>isYouTubeAPIReady\<close> only, so the \<^verbatim>\<open>currentVideoId\<close> it
  compares with is the value its closure captured, the parameter \<open>cv\<close>.
  A \<^verbatim>\<open>videoId\<close> that is absent or the empty string is falsy.
\<close>

definition videoChange :: "string \<Rightarrow> snapshot \<Rightarrow> wp_state \<Rightarrow> wp_state" where
  "videoChange cv snap s =
     (case videoId snap of
        None \<Rightarrow> s
      | Some v \<Rightarrow>
          if v \<noteq> [] \<and> v \<noteq> cv then
            let s1 = s\<lparr>currentVideoId := v\<rparr>
            in if isPlaying snap \<and> \<not> hasInteracted s1
               then s1\<lparr>needsUserInteraction := True\<rparr> else s1
          else s)"

text \<open>Lines 252 to 320, the whole listener.\<close>

definition sessionState :: "string \<Rightarrow> snapshot \<Rightarrow> wp_state \<Rightarrow> outcome" where
  "sessionState cv snap s =
     (if version snap \<le> lastVersionRef s then Returned s
      else
        let s1 = s\<lparr>lastVersionRef := version snap\<rparr>;
            s2 = videoChange cv snap s1
        in if \<not> isPlayerReady s2 then Returned (s2\<lparr>latestSessionState := Some snap\<rparr>)
           else disposition snap s2)"

section \<open>Player initialisation\<close>

text \<open>
  Lines 352 to 422. The effect body resets the ready flags and schedules
  \<^verbatim>\<open>initPlayer\<close> after 100ms.
\<close>

definition playerEffect :: "wp_state \<Rightarrow> wp_state" where
  "playerEffect s =
     (if currentVideoId s = [] \<or> \<not> ytApi s then s
      else setTimeout InitPlayer 100 (s\<lparr>isPlayerReady := False, playerReadyUI := False\<rparr>))"

text \<open>
  One run of \<^verbatim>\<open>initPlayer\<close>. The video id is the one the effect's closure
  holds. What the environment decides is passed in: whether the element
  \<^verbatim>\<open>youtube-player\<close> is in the document, and what the constructor gives
  (\<open>None\<close> when it throws).
\<close>

definition initPlayer :: "string \<Rightarrow> bool \<Rightarrow> player option \<Rightarrow> wp_state \<Rightarrow> wp_state" where
  "initPlayer vid playerDiv constructed s =
     (if \<not> playerDiv then
        setTimeout InitPlayer 500 (logError ''Player div not found! Retrying...'' s)
      else
        let s1 = (case playerRef s of
                    None \<Rightarrow> s
                  | Some old \<Rightarrow>
                      (case destroy old s of
                         Returned s' \<Rightarrow> s'
                       | Threw s' \<Rightarrow> logError ''Error destroying old player:'' s'))
        in case constructed of
             Some p \<Rightarrow> s1\<lparr>playerRef := Some (p\<lparr>playerVideoId := vid\<rparr>)\<rparr>
           | None \<Rightarrow>
               toastError ''Failed to initialize video player''
                 (logError ''Failed to create player:'' s1))"

text \<open>
  The chain of attempts that the 500ms timer drives: attempt \<open>k\<close> finds the
  container present or not as \<open>divAt k\<close> says, and a failed attempt is followed by
  the next one when its timer fires. Nothing in the source counts attempts, so the
  chain may go on for ever; not returning is the value \<open>None\<close>.
\<close>

partial_function (option) initPlayerRetry ::
  "string \<Rightarrow> (nat \<Rightarrow> bool) \<Rightarrow> player option \<Rightarrow> nat \<Rightarrow> wp_state \<Rightarrow> wp_state option" where
  "initPlayerRetry vid divAt constructed k s =
     (if \<not> divAt k
      then initPlayerRetry vid divAt constructed (Suc k) (initPlayer vid False constructed s)
      else Some (initPlayer vid True constructed s))"

text \<open>The \<^verbatim>\<open>onReady\<close> callback, lines 395 to 406.\<close>

definition onReady :: "wp_state \<Rightarrow> outcome" where
  "onReady s =
     (let s1 = s\<lparr>isPlayerReady := True, playerReadyUI := True\<rparr>
      in case latestSessionState s1 of
           None \<Rightarrow> Returned s1
         | Some snap \<Rightarrow>
             andThen (applySnapshot snap s1)
               (\<lambda>s2. Returned (s2\<lparr>latestSessionState := None\<rparr>)))"

section \<open>Timer callbacks\<close>

definition runCallback :: "callback \<Rightarrow> wp_state \<Rightarrow> wp_state" where
  "runCallback cb s =
     (case cb of
        ClearApplyingServerUpdate \<Rightarrow> s\<lparr>applyingServerUpdate := False\<rparr>
      | ClearLocalAction \<Rightarrow> s\<lparr>isLocalAction := False\<rparr>
      | InitPlayer \<Rightarrow> s)"

section \<open>Local control handlers\<close>

text \<open>\<^verbatim>\<open>handlePlay\<close>, lines 475 to 488.\<close>

definition handlePlay :: "wp_state \<Rightarrow> outcome" where
  "handlePlay s =
     (case playerRef s of
        None \<Rightarrow> Returned s
      | Some p \<Rightarrow>
          (case socket s of
             None \<Rightarrow> Returned s
           | Some so \<Rightarrow>
               if \<not> connected so then Returned s
               else
                 let s1 = s\<lparr>isLocalAction := True, hasInteracted := True,
                            needsUserInteraction := False\<rparr>;
                     currentTime = getCurrentTime p
                 in andThen (playVideo p s1)
                      (\<lambda>s2. Returned
                         (setTimeout ClearLocalAction 100
                            ((emit (EmitPlay currentTime) s2)\<lparr>isPlayingUI := True\<rparr>)))))"

text \<open>\<^verbatim>\<open>handleSyncToSession\<close>, lines 494 to 510.\<close>

definition handleSyncToSession :: "wp_state \<Rightarrow> outcome" where
  "handleSyncToSession s =
     (let s1 = s\<lparr>hasInteracted := True, needsUserInteraction := False,
                 isRequestingSync := True\<rparr>;
          s2 = (case socket s1 of
                  None \<Rightarrow> s1
                | Some so \<Rightarrow> if connected so then emit EmitRequestSessionState s1 else s1)
      in case latestSessionState s2 of
           None \<Rightarrow> Returned s2
         | Some snap \<Rightarrow>
             if playerRef s2 \<noteq> None \<and> isPlayerReady s2 then
               andThen (applySnapshot snap s2)
                 (\<lambda>s3. Returned (s3\<lparr>isRequestingSync := False\<rparr>))
             else Returned s2)"

text \<open>\<^verbatim>\<open>handlePause\<close>, lines 516 to 526.\<close>

definition handlePause :: "wp_state \<Rightarrow> outcome" where
  "handlePause s =
     (case playerRef s of
        None \<Rightarrow> Returned s
      | Some p \<Rightarrow>
          (case socket s of
             None \<Rightarrow> Returned s
           | Some so \<Rightarrow>
               if \<not> connected so then Returned s
               else
                 let s1 = s\<lparr>isLocalAction := True\<rparr>;
                     currentTime = getCurrentTime p
                 in andThen (pauseVideo p s1)
                      (\<lambda>s2. Returned
                         (setTimeout ClearLocalAction 100
                            ((emit (EmitPause currentTime) s2)\<lparr>isPlayingUI := False\<rparr>)))))"

text \<open>\<^verbatim>\<open>handleSeek\<close>, lines 532 to 541.\<close>

definition handleSeek :: "real \<Rightarrow> wp_state \<Rightarrow> outcome" where
  "handleSeek seconds s =
     (case playerRef s of
        None \<Rightarrow> Returned s
      | Some p \<Rightarrow>
          (case socket s of
             None \<Rightarrow> Returned s
           | Some so \<Rightarrow>
               if \<not> connected so then Returned s
               else
                 let s1 = s\<lparr>isLocalAction := True\<rparr>;
                     currentTime = getCurrentTime p + seconds
                 in andThen (seekTo p currentTime s1)
                      (\<lambda>s2. Returned
                         (setTimeout ClearLocalAction 100 (emit (EmitSeek currentTime) s2)))))"

section \<open>Events of the component\<close>

text \<open>
  The component is driven by events, one at a time: the YouTube script finishing to load
  (which lets the socket effect create the socket and register the listener), the socket
  connecting, a snapshot arriving, the player effect running after
  \<^verbatim>\<open>currentVideoId\<close> changed, \<^verbatim>\<open>initPlayer\<close> running, the
  player calling \<^verbatim>\<open>onReady\<close>, a timer firing, and the clicks. An exception
  that leaves a handler ends that event only; the state it left stays.

  The listener's closure is created when the socket effect runs. No snapshot can have
  arrived before, so the \<^verbatim>\<open>currentVideoId\<close> it holds is the initial empty
  string.
\<close>

datatype event =
    YouTubeApiReady
  | SocketConnected
  | SessionState snapshot
  | PlayerEffect
  | InitPlayerRuns bool "player option"
  | PlayerReady
  | TimerFires callback
  | ClickPlay
  | ClickPause
  | ClickSeek real
  | ClickSync

fun step :: "wp_state \<Rightarrow> event \<Rightarrow> wp_state" where
  "step s YouTubeApiReady = s\<lparr>ytApi := True, socket := Some \<lparr>connected = False\<rparr>\<rparr>"
| "step s SocketConnected =
     (case socket s of
        None \<Rightarrow> s
      | Some so \<Rightarrow> s\<lparr>socket := Some (so\<lparr>connected := True\<rparr>)\<rparr>)"
| "step s (SessionState snap) = stateOf (sessionState [] snap s)"
| "step s PlayerEffect = playerEffect s"
| "step s (InitPlayerRuns playerDiv constructed) =
     initPlayer (currentVideoId s) playerDiv constructed s"
| "step s PlayerReady = stateOf (onReady s)"
| "step s (TimerFires cb) = runCallback cb s"
| "step s ClickPlay = stateOf (handlePlay s)"
| "step s ClickPause = stateOf (handlePause s)"
| "step s (ClickSeek seconds) = stateOf (handleSeek seconds s)"
| "step s ClickSync = stateOf (handleSyncToSession s)"

definition run :: "event list \<Rightarrow> wp_state \<Rightarrow> wp_state" where
  "run evs s = foldl step s evs"

section \<open>Concrete scenarios\<close>

text \<open>Players, snapshots, event sequences and the states they lead to, used to run the
  handlers on concrete inputs.\<close>

definition steadyPlayer :: player where
  "steadyPlayer =
     \<lparr>playerVideoId = ''abc'', getCurrentTime = 42, seekToThrows = False,
      playVideoThrows = False, pauseVideoThrows = False, destroyThrows = False\<rparr>"

definition startingPlayer :: player where
  "startingPlayer =
     \<lparr>playerVideoId = ''abc'', getCurrentTime = 0, seekToThrows = False,
      playVideoThrows = False, pauseVideoThrows = False, destroyThrows = False\<rparr>"

definition freshPlayer :: player where
  "freshPlayer =
     \<lparr>playerVideoId = ''xyz'', getCurrentTime = 0, seekToThrows = False,
      playVideoThrows = False, pauseVideoThrows = False, destroyThrows = False\<rparr>"

definition faultyPlayer :: player where
  "faultyPlayer =
     \<lparr>playerVideoId = ''abc'', getCurrentTime = 42, seekToThrows = False,
      playVideoThrows = True, pauseVideoThrows = False, destroyThrows = False\<rparr>"

definition snapJoin :: snapshot where
  "snapJoin =
     \<lparr>version = 1, videoId = Some ''abc'', isPlaying = True,
      playbackTimeAtLastEvent = 10, lastEventAt = 1000, serverTime = 1200\<rparr>"

definition snapFirst :: snapshot where
  "snapFirst =
     \<lparr>version = 1, videoId = Some ''abc'', isPlaying = False,
      playbackTimeAtLastEvent = 42, lastEventAt = 1000, serverTime = 1000\<rparr>"

definition snapSwitch :: snapshot where
  "snapSwitch =
     \<lparr>version = 2, videoId = Some ''xyz'', isPlaying = False,
      playbackTimeAtLastEvent = 0, lastEventAt = 2000, serverTime = 2000\<rparr>"

definition snapAfter :: snapshot where
  "snapAfter =
     \<lparr>version = 3, videoId = Some ''xyz'', isPlaying = False,
      playbackTimeAtLastEvent = 5, lastEventAt = 3000, serverTime = 3000\<rparr>"

text \<open>A viewer joins while the video plays for the others: the first snapshot arrives,
  the player is constructed, and \<^verbatim>\<open>onReady\<close> is about to fire. Nothing has been
  clicked.\<close>

definition joinTrace :: "event list" where
  "joinTrace =
     [YouTubeApiReady, SocketConnected, SessionState snapJoin, PlayerEffect,
      InitPlayerRuns True (Some startingPlayer)]"

definition joiningState :: wp_state where
  "joiningState =
     \<lparr>socket = Some \<lparr>connected = True\<rparr>, currentVideoId = ''abc'',
      isPlayingUI = False, playerReadyUI = False, needsUserInteraction = True,
      ytApi = True, playerRef = Some startingPlayer, isPlayerReady = False,
      latestSessionState = Some snapJoin, lastVersionRef = 1, isLocalAction = False,
      applyingServerUpdate = False, isRequestingSync = False, hasInteracted = False,
      surfaceCalls = [], emitted = [], scheduled = [(100, InitPlayer)], notices = []\<rparr>"

text \<open>A viewer with a ready player on video \<^verbatim>\<open>abc\<close>, paused at 42 seconds.\<close>

definition watchTrace :: "event list" where
  "watchTrace =
     [YouTubeApiReady, SocketConnected, SessionState snapFirst, PlayerEffect,
      InitPlayerRuns True (Some steadyPlayer), PlayerReady,
      TimerFires ClearApplyingServerUpdate]"

definition watchingState :: wp_state where
  "watchingState =
     \<lparr>socket = Some \<lparr>connected = True\<rparr>, currentVideoId = ''abc'',
      isPlayingUI = False, playerReadyUI = True, needsUserInteraction = False,
      ytApi = True, playerRef = Some steadyPlayer, isPlayerReady = True,
      latestSessionState = None, lastVersionRef = 1, isLocalAction = False,
      applyingServerUpdate = False, isRequestingSync = False, hasInteracted = False,
      surfaceCalls = [PauseVideo], emitted = [],
      scheduled = [(100, InitPlayer), (200, ClearApplyingServerUpdate)], notices = []\<rparr>"

text \<open>From there the session switches to video \<^verbatim>\<open>xyz\<close>: the switching snapshot
  arrives, the player effect runs, a further snapshot arrives while the new player is
  being built, and the new player is constructed; its \<^verbatim>\<open>onReady\<close> is about to
  fire, before the 200ms timer of the last apply has.\<close>

definition switchTrace :: "event list" where
  "switchTrace =
     watchTrace @
     [SessionState snapSwitch, PlayerEffect, SessionState snapAfter,
      InitPlayerRuns True (Some freshPlayer)]"

definition switchingState :: wp_state where
  "switchingState =
     \<lparr>socket = Some \<lparr>connected = True\<rparr>, currentVideoId = ''xyz'',
      isPlayingUI = False, playerReadyUI = False, needsUserInteraction = False,
      ytApi = True, playerRef = Some freshPlayer, isPlayerReady = False,
      latestSessionState = Some snapAfter, lastVersionRef = 3, isLocalAction = False,
      applyingServerUpdate = True, isRequestingSync = False, hasInteracted = False,
      surfaceCalls = [PauseVideo, SeekTo 0, PauseVideo, Destroy], emitted = [],
      scheduled = [(100, InitPlayer), (200, ClearApplyingServerUpdate),
                   (200, ClearApplyingServerUpdate), (100, InitPlayer)],
      notices = []\<rparr>"

text \<open>A ready player whose \<^verbatim>\<open>playVideo\<close> throws.\<close>

definition faultyState :: wp_state where
  "faultyState = watchingState\<lparr>playerRef := Some faultyPlayer\<rparr>"

text \<open>The container \<^verbatim>\<open>youtube-player\<close> never appears.\<close>

definition containerMissing :: "nat \<Rightarrow> bool" where
  "containerMissing k = False"

text \<open>The container appears at the fourth attempt.\<close>

definition containerLate :: "nat \<Rightarrow> bool" where
  "containerLate k = (3 \<le> k)"

text \<open>Two paused snapshots whose target is 0.36 and 0.34 seconds away from the
  42 seconds at which \<open>steadyPlayer\<close> stands.\<close>

definition snapDrift36 :: snapshot where
  "snapDrift36 =
     \<lparr>version = 2, videoId = None, isPlaying = False,
      playbackTimeAtLastEvent = 42.36, lastEventAt = 2000, serverTime = 2500\<rparr>"

definition snapDrift34 :: snapshot where
  "snapDrift34 =
     \<lparr>version = 2, videoId = None, isPlaying = False,
      playbackTimeAtLastEvent = 42.34, lastEventAt = 2000, serverTime = 2500\<rparr>"

text \<open>The state \<open>switchingState\<close> once \<^verbatim>\<open>onReady\<close> has set the ready flags,
  which is where the pending snapshot is handed over.\<close>

definition switchedReadyState :: wp_state where
  "switchedReadyState = switchingState\<lparr>isPlayerReady := True, playerReadyUI := True\<rparr>"

text \<open>The joining viewer after a click that set \<^verbatim>\<open>hasInteracted\<close>.\<close>

definition joiningInteractedState :: wp_state where
  "joiningInteractedState = joiningState\<lparr>hasInteracted := True\<rparr>"

text \<open>A ready player whose \<^verbatim>\<open>seekTo\<close> throws.\<close>

definition faultySeekPlayer :: player where
  "faultySeekPlayer =
     \<lparr>playerVideoId = ''abc'', getCurrentTime = 42, seekToThrows = True,
      playVideoThrows = False, pauseVideoThrows = False, destroyThrows = False\<rparr>"

definition seekFaultyState :: wp_state where
  "seekFaultyState = watchingState\<lparr>playerRef := Some faultySeekPlayer\<rparr>"

text \<open>The joining viewer who has clicked, with a player whose
  \<^verbatim>\<open>playVideo\<close> throws.\<close>

definition joiningFaultyState :: wp_state where
  "joiningFaultyState = joiningInteractedState\<lparr>playerRef := Some faultyPlayer\<rparr>"

text \<open>What follows the snapshot that switches the viewer of \<open>watchingState\<close> to
  video \<^verbatim>\<open>xyz\<close>: the 200ms timer fires, the player effect runs, the new player
  is constructed and reports ready.\<close>

definition switchLostTrace :: "event list" where
  "switchLostTrace =
     [SessionState snapSwitch, TimerFires ClearApplyingServerUpdate, PlayerEffect,
      InitPlayerRuns True (Some freshPlayer), PlayerReady]"

text \<open>The socket exists and is connected; no snapshot has arrived yet.\<close>

definition connectedState :: wp_state where
  "connectedState = initialState\<lparr>ytApi := True, socket := Some \<lparr>connected = True\<rparr>\<rparr>"

section \<open>Properties used to state the results\<close>

text \<open>What a local control leaves behind once the guard is passed, \<open>throws\<close>
  telling whether its player call threw: the outcome is an exception exactly then, the
  flag is set and the player call was issued in both cases, and the emission and the
  100ms timer that clears the flag are there only if the call returned.\<close>

definition localActionResult ::
  "wp_state \<Rightarrow> surface_call \<Rightarrow> intent \<Rightarrow> bool \<Rightarrow> outcome \<Rightarrow> bool" where
  "localActionResult s call i throws r =
     (hasThrown r = throws \<and> isLocalAction (stateOf r)
      \<and> surfaceCalls (stateOf r) = surfaceCalls s @ [call]
      \<and> emitted (stateOf r) = emitted s @ (if throws then [] else [i])
      \<and> scheduled (stateOf r)
          = scheduled s @ (if throws then [] else [(100, ClearLocalAction)]))"

text \<open>What a local control leaves behind depending on whether its player call threw:
  the flag is set in both cases, the clearing timer is scheduled only if it did not.\<close>

definition localActionOutcome :: "wp_state \<Rightarrow> bool \<Rightarrow> outcome \<Rightarrow> bool" where
  "localActionOutcome s throws r =
     (hasThrown r = throws \<and> isLocalAction (stateOf r)
      \<and> scheduled (stateOf r)
          = scheduled s @ (if throws then [] else [(100, ClearLocalAction)]))"

text \<open>The state of the listener once it has recorded the version and the new video id
  of a snapshot that changes the video.\<close>

definition notedVideo :: "string \<Rightarrow> snapshot \<Rightarrow> wp_state \<Rightarrow> wp_state" where
  "notedVideo v snap s =
     s\<lparr>lastVersionRef := version snap, currentVideoId := v,
       needsUserInteraction := (needsUserInteraction s \<or> (isPlaying snap \<and> \<not> hasInteracted s))\<rparr>"

section \<open>The scenarios are reachable\<close>

lemmas scenario_defs =
  steadyPlayer_def startingPlayer_def freshPlayer_def faultyPlayer_def faultySeekPlayer_def
  snapJoin_def snapFirst_def snapSwitch_def snapAfter_def snapDrift36_def snapDrift34_def

lemmas handler_defs =
  sessionState_def videoChange_def disposition_def applySnapshot_def computeTargetTime_def
  onReady_def playerEffect_def initPlayer_def runCallback_def
  handlePlay_def handlePause_def handleSeek_def handleSyncToSession_def
  seekTo_def playVideo_def pauseVideo_def destroy_def setTimeout_def emit_def
  logError_def toastError_def

lemma joiningState_reachable: "run joinTrace initialState = joiningState"
  by (simp add: run_def joinTrace_def initialState_def joiningState_def scenario_defs
      handler_defs Let_def)

lemma watchingState_reachable: "run watchTrace initialState = watchingState"
  by (simp add: run_def watchTrace_def initialState_def watchingState_def scenario_defs
      handler_defs Let_def)

lemma switchingState_reachable: "run switchTrace initialState = switchingState"
proof -
  have "run switchTrace initialState =
        foldl step (run watchTrace initialState)
          [SessionState snapSwitch, PlayerEffect, SessionState snapAfter,
           InitPlayerRuns True (Some freshPlayer)]"
    by (simp add: run_def switchTrace_def)
  also have "\<dots> = switchingState"
    unfolding watchingState_reachable
    by (simp add: watchingState_def switchingState_def scenario_defs handler_defs Let_def)
  finally show ?thesis .
qed

section \<open>The version filter\<close>

lemma applySnapshot_lastVersionRef:
  "lastVersionRef (stateOf (applySnapshot snap s)) = lastVersionRef s"
  by (simp add: applySnapshot_def seekTo_def playVideo_def pauseVideo_def setTimeout_def
      Let_def split: option.splits)

lemma disposition_lastVersionRef:
  "lastVersionRef (stateOf (disposition snap s)) = lastVersionRef s"
  unfolding disposition_def
  by (cases "applySnapshot snap s") (use applySnapshot_lastVersionRef[of snap s] in auto)

lemma videoChange_lastVersionRef:
  "lastVersionRef (videoChange cv snap s) = lastVersionRef s"
  by (simp add: videoChange_def Let_def split: option.splits)

lemma sessionState_fresh:
  "lastVersionRef s < version snap \<Longrightarrow>
   lastVersionRef (stateOf (sessionState cv snap s)) = version snap"
  by (simp add: sessionState_def Let_def disposition_lastVersionRef
      videoChange_lastVersionRef)

lemma sessionState_stale:
  "version snap \<le> lastVersionRef s \<Longrightarrow> sessionState cv snap s = Returned s"
  by (simp add: sessionState_def)

lemma onReady_lastVersionRef: "lastVersionRef (stateOf (onReady s)) = lastVersionRef s"
proof (cases "latestSessionState s")
  case None
  then show ?thesis by (simp add: onReady_def Let_def)
next
  case (Some snap)
  let ?s1 = "s\<lparr>isPlayerReady := True, playerReadyUI := True\<rparr>"
  show ?thesis
    using Some applySnapshot_lastVersionRef[of snap ?s1]
    by (cases "applySnapshot snap ?s1") (simp_all add: onReady_def Let_def)
qed

lemma handlers_lastVersionRef:
  "lastVersionRef (stateOf (handlePlay s)) = lastVersionRef s"
  "lastVersionRef (stateOf (handlePause s)) = lastVersionRef s"
  "lastVersionRef (stateOf (handleSeek seconds s)) = lastVersionRef s"
  by (simp_all add: handlePlay_def handlePause_def handleSeek_def seekTo_def playVideo_def
      pauseVideo_def emit_def setTimeout_def Let_def split: option.splits)

lemma handleSyncToSession_lastVersionRef:
  "lastVersionRef (stateOf (handleSyncToSession s)) = lastVersionRef s"
proof -
  let ?s1 = "s\<lparr>hasInteracted := True, needsUserInteraction := False,
               isRequestingSync := True\<rparr>"
  let ?s2 = "case socket ?s1 of None \<Rightarrow> ?s1
             | Some so \<Rightarrow> if connected so then emit EmitRequestSessionState ?s1 else ?s1"
  have l: "lastVersionRef ?s2 = lastVersionRef s"
    by (simp add: emit_def split: option.splits)
  show ?thesis
  proof (cases "latestSessionState ?s2")
    case None
    then show ?thesis using l by (simp add: handleSyncToSession_def Let_def)
  next
    case (Some snap)
    show ?thesis
      using Some l applySnapshot_lastVersionRef[of snap ?s2]
      by (cases "applySnapshot snap ?s2") (simp_all add: handleSyncToSession_def Let_def)
  qed
qed

lemma initPlayer_lastVersionRef:
  "lastVersionRef (initPlayer vid d c s) = lastVersionRef s"
  by (simp add: initPlayer_def destroy_def logError_def toastError_def setTimeout_def Let_def
      split: option.splits)

lemma sessionState_lastVersionRef_ge:
  "version snap \<le> lastVersionRef (stateOf (sessionState cv snap s))"
  "lastVersionRef s \<le> lastVersionRef (stateOf (sessionState cv snap s))"
  using sessionState_fresh[of s snap cv] sessionState_stale[of snap s cv]
  by (cases "version snap \<le> lastVersionRef s"; simp)+

text \<open>No event lowers \<^verbatim>\<open>lastVersionRef\<close>.\<close>

lemma step_lastVersionRef_mono: "lastVersionRef s \<le> lastVersionRef (step s e)"
  by (cases e)
     (simp_all add: sessionState_lastVersionRef_ge onReady_lastVersionRef
        handlers_lastVersionRef handleSyncToSession_lastVersionRef initPlayer_lastVersionRef
        playerEffect_def setTimeout_def runCallback_def
        split: option.splits callback.splits)

lemma run_lastVersionRef_mono: "lastVersionRef s \<le> lastVersionRef (run evs s)"
  unfolding run_def
proof (induction evs arbitrary: s)
  case Nil
  then show ?case by simp
next
  case (Cons e evs)
  have "lastVersionRef s \<le> lastVersionRef (step s e)" by (rule step_lastVersionRef_mono)
  also have "\<dots> \<le> lastVersionRef (foldl step (step s e) evs)" by (rule Cons.IH)
  finally show ?case by simp
qed

text \<open>
  C1. A snapshot whose version is not above \<^verbatim>\<open>lastVersionRef\<close> leaves the whole
  state as it was: no player call, no change to any flag or field. Any other snapshot
  sets \<^verbatim>\<open>lastVersionRef\<close> to its version, and that holds in the state the
  listener leaves behind whether it returns or a later step throws. So once a snapshot
  has been delivered, delivering it again changes nothing, whatever events happened in
  between.
\<close>

theorem sessionState_version_filter:
  "(version snap \<le> lastVersionRef s \<longrightarrow> sessionState cv snap s = Returned s)
   \<and> (lastVersionRef s < version snap \<longrightarrow>
        lastVersionRef (stateOf (sessionState cv snap s)) = version snap)
   \<and> sessionState cv' snap (run evs (stateOf (sessionState cv snap s)))
       = Returned (run evs (stateOf (sessionState cv snap s)))"
proof (intro conjI impI)
  show "sessionState cv' snap (run evs (stateOf (sessionState cv snap s)))
        = Returned (run evs (stateOf (sessionState cv snap s)))"
  proof -
    have "version snap \<le> lastVersionRef (stateOf (sessionState cv snap s))"
      by (rule sessionState_lastVersionRef_ge)
    also have "\<dots> \<le> lastVersionRef (run evs (stateOf (sessionState cv snap s)))"
      by (rule run_lastVersionRef_mono)
    finally show ?thesis by (rule sessionState_stale)
  qed
qed (simp_all add: sessionState_stale sessionState_fresh)

theorem sessionState_version_filter_witness:
  "version snapFirst \<le> lastVersionRef watchingState
   \<and> sessionState [] snapFirst watchingState = Returned watchingState
   \<and> lastVersionRef watchingState < version snapSwitch
   \<and> lastVersionRef (stateOf (sessionState [] snapSwitch watchingState)) = 2
   \<and> sessionState [] snapSwitch
        (run [TimerFires ClearApplyingServerUpdate]
           (stateOf (sessionState [] snapSwitch watchingState)))
      = Returned (run [TimerFires ClearApplyingServerUpdate]
                   (stateOf (sessionState [] snapSwitch watchingState)))"
proof -
  have stale: "version snapFirst \<le> lastVersionRef watchingState"
    by (simp add: snapFirst_def watchingState_def)
  have fresh: "lastVersionRef watchingState < version snapSwitch"
    by (simp add: snapSwitch_def watchingState_def)
  have v: "version snapSwitch = 2"
    by (simp add: snapSwitch_def)
  from sessionState_version_filter[of snapFirst watchingState "[]" "[]"] stale
  have a: "sessionState [] snapFirst watchingState = Returned watchingState"
    by blast
  note S = sessionState_version_filter[of snapSwitch watchingState "[]" "[]"
             "[TimerFires ClearApplyingServerUpdate]"]
  from S fresh v
  have b: "lastVersionRef (stateOf (sessionState [] snapSwitch watchingState)) = 2"
    by simp
  from S
  have c: "sessionState [] snapSwitch
             (run [TimerFires ClearApplyingServerUpdate]
                (stateOf (sessionState [] snapSwitch watchingState)))
           = Returned (run [TimerFires ClearApplyingServerUpdate]
                        (stateOf (sessionState [] snapSwitch watchingState)))"
    by blast
  from stale fresh a b c show ?thesis by blast
qed

section \<open>The target time\<close>

text \<open>
  C2. For a paused snapshot the target time is \<^verbatim>\<open>playbackTimeAtLastEvent\<close>,
  whatever the two timestamps are; for a playing one it is that time plus the gap between
  \<^verbatim>\<open>serverTime\<close> and \<^verbatim>\<open>lastEventAt\<close> in seconds. The snapshot of the
  specification's example, playing from 10.0 with timestamps 1000 and 1200, gives 10.2.
\<close>

theorem computeTargetTime_formula:
  "(\<not> isPlaying snap \<longrightarrow> computeTargetTime snap = playbackTimeAtLastEvent snap)
   \<and> (isPlaying snap \<longrightarrow>
        computeTargetTime snap
          = playbackTimeAtLastEvent snap + (serverTime snap - lastEventAt snap) / 1000)
   \<and> computeTargetTime
        \<lparr>version = v, videoId = vid, isPlaying = True,
         playbackTimeAtLastEvent = 10.0, lastEventAt = 1000, serverTime = 1200\<rparr> = 10.2"
  by (simp add: computeTargetTime_def Let_def)

theorem computeTargetTime_formula_witness:
  "\<not> isPlaying snapFirst \<and> computeTargetTime snapFirst = 42
   \<and> isPlaying snapJoin \<and> computeTargetTime snapJoin = 10.2"
proof -
  have paused: "\<not> isPlaying snapFirst" by (simp add: snapFirst_def)
  have playing: "isPlaying snapJoin" by (simp add: snapJoin_def)
  from computeTargetTime_formula[of snapFirst] paused
  have a: "computeTargetTime snapFirst = playbackTimeAtLastEvent snapFirst" by blast
  from computeTargetTime_formula[of snapJoin] playing
  have b: "computeTargetTime snapJoin
           = playbackTimeAtLastEvent snapJoin + (serverTime snapJoin - lastEventAt snapJoin) / 1000"
    by blast
  have "computeTargetTime snapFirst = 42" using a by (simp add: snapFirst_def)
  moreover have "computeTargetTime snapJoin = 10.2" using b by (simp add: snapJoin_def)
  ultimately show ?thesis using paused playing by blast
qed

section \<open>Local controls without a player or a connection\<close>

text \<open>
  C10. When there is no player instance, or no socket, or the socket is not connected,
  each of \<^verbatim>\<open>handlePlay\<close>, \<^verbatim>\<open>handlePause\<close> and \<^verbatim>\<open>handleSeek\<close>
  returns with the state exactly as it was: no player call, no emission, no timer, no
  flag or field changed.
\<close>

theorem handlers_guard_noop:
  "playerRef s = None \<or> socket s = None \<or> (\<exists>so. socket s = Some so \<and> \<not> connected so) \<Longrightarrow>
   handlePlay s = Returned s \<and> handlePause s = Returned s
   \<and> handleSeek seconds s = Returned s"
  by (auto simp: handlePlay_def handlePause_def handleSeek_def split: option.splits)

theorem handlers_guard_noop_witness:
  "playerRef initialState = None
   \<and> handlePlay initialState = Returned initialState
   \<and> handlePause initialState = Returned initialState
   \<and> handleSeek 10 initialState = Returned initialState
   \<and> socket (watchingState\<lparr>socket := Some \<lparr>connected = False\<rparr>\<rparr>) = Some \<lparr>connected = False\<rparr>
   \<and> handlePlay (watchingState\<lparr>socket := Some \<lparr>connected = False\<rparr>\<rparr>)
       = Returned (watchingState\<lparr>socket := Some \<lparr>connected = False\<rparr>\<rparr>)"
proof -
  have none: "playerRef initialState = None" by (simp add: initialState_def)
  have off: "socket (watchingState\<lparr>socket := Some \<lparr>connected = False\<rparr>\<rparr>)
             = Some \<lparr>connected = False\<rparr>" by simp
  then have off': "\<exists>so. socket (watchingState\<lparr>socket := Some \<lparr>connected = False\<rparr>\<rparr>) = Some so
                   \<and> \<not> connected so" by simp
  from handlers_guard_noop[of initialState 10] none
  have a: "handlePlay initialState = Returned initialState
           \<and> handlePause initialState = Returned initialState
           \<and> handleSeek 10 initialState = Returned initialState" by blast
  from handlers_guard_noop[of "watchingState\<lparr>socket := Some \<lparr>connected = False\<rparr>\<rparr>" 10] off'
  have b: "handlePlay (watchingState\<lparr>socket := Some \<lparr>connected = False\<rparr>\<rparr>)
           = Returned (watchingState\<lparr>socket := Some \<lparr>connected = False\<rparr>\<rparr>)" by blast
  from none a off b show ?thesis by blast
qed

section \<open>Applying a snapshot\<close>

lemma applySnapshot_thrown:
  assumes "playerRef s = Some p" "isPlayerReady s"
  shows "hasThrown (applySnapshot snap s)
         = ((\<bar>computeTargetTime snap - getCurrentTime p\<bar> > 0.35 \<and> seekToThrows p)
            \<or> (if isPlaying snap then playVideoThrows p else pauseVideoThrows p))"
  using assms
  by (simp add: applySnapshot_def seekTo_def playVideo_def pauseVideo_def setTimeout_def Let_def)

lemma applySnapshot_scheduled:
  assumes "playerRef s = Some p" "isPlayerReady s"
  shows "scheduled (stateOf (applySnapshot snap s))
         = scheduled s @ (if hasThrown (applySnapshot snap s) then []
                          else [(200, ClearApplyingServerUpdate)])"
  using assms
  by (simp add: applySnapshot_def seekTo_def playVideo_def pauseVideo_def setTimeout_def Let_def)

lemma applySnapshot_flag:
  assumes "playerRef s = Some p" "isPlayerReady s"
  shows "applyingServerUpdate (stateOf (applySnapshot snap s))"
  using assms
  by (simp add: applySnapshot_def seekTo_def playVideo_def pauseVideo_def setTimeout_def Let_def)

text \<open>
  C3, as the specification states it, fails: on the ready player of \<open>seekFaultyState\<close>,
  whose \<^verbatim>\<open>seekTo\<close> throws, a snapshot 0.36 seconds away leads to the seek
  and to nothing else. The exception leaves \<^verbatim>\<open>applySnapshot\<close>, and neither
  \<^verbatim>\<open>playVideo\<close> nor \<^verbatim>\<open>pauseVideo\<close> is called.
\<close>

theorem throwing_seek_skips_play_pause:
  "playerRef seekFaultyState = Some faultySeekPlayer \<and> isPlayerReady seekFaultyState
   \<and> \<bar>computeTargetTime snapDrift36 - getCurrentTime faultySeekPlayer\<bar> = 0.36
   \<and> hasThrown (applySnapshot snapDrift36 seekFaultyState)
   \<and> surfaceCalls (stateOf (applySnapshot snapDrift36 seekFaultyState))
       = surfaceCalls seekFaultyState @ [SeekTo 42.36]"
  by (simp add: seekFaultyState_def watchingState_def faultySeekPlayer_def snapDrift36_def
      applySnapshot_def computeTargetTime_def seekTo_def Let_def)

text \<open>
  C3, amended. On a ready player \<^verbatim>\<open>applySnapshot\<close> issues a seek to the
  computed target exactly when the target is more than 0.35 seconds away from
  \<^verbatim>\<open>getCurrentTime()\<close>. After that, whatever the drift, it issues exactly one
  call that is \<^verbatim>\<open>playVideo\<close> for a playing snapshot and
  \<^verbatim>\<open>pauseVideo\<close> for a paused one, except when the seek was issued and threw:
  then the exception leaves the function and neither is called.
\<close>

theorem applySnapshot_drift_correction:
  assumes "playerRef s = Some p" "isPlayerReady s"
  shows "surfaceCalls (stateOf (applySnapshot snap s))
         = surfaceCalls s
           @ (if \<bar>computeTargetTime snap - getCurrentTime p\<bar> > 0.35
              then [SeekTo (computeTargetTime snap)] else [])
           @ (if \<bar>computeTargetTime snap - getCurrentTime p\<bar> > 0.35 \<and> seekToThrows p then []
              else [if isPlaying snap then PlayVideo else PauseVideo])"
  using assms
  by (simp add: applySnapshot_def seekTo_def playVideo_def pauseVideo_def setTimeout_def Let_def)

theorem applySnapshot_drift_correction_witness:
  "playerRef watchingState = Some steadyPlayer \<and> isPlayerReady watchingState
   \<and> \<bar>computeTargetTime snapDrift36 - getCurrentTime steadyPlayer\<bar> = 0.36
   \<and> surfaceCalls (stateOf (applySnapshot snapDrift36 watchingState))
       = surfaceCalls watchingState @ [SeekTo 42.36, PauseVideo]
   \<and> \<bar>computeTargetTime snapDrift34 - getCurrentTime steadyPlayer\<bar> = 0.34
   \<and> surfaceCalls (stateOf (applySnapshot snapDrift34 watchingState))
       = surfaceCalls watchingState @ [PauseVideo]
   \<and> isPlaying snapJoin
   \<and> surfaceCalls (stateOf (applySnapshot snapJoin watchingState))
       = surfaceCalls watchingState @ [SeekTo 10.2, PlayVideo]
   \<and> playerRef seekFaultyState = Some faultySeekPlayer \<and> isPlayerReady seekFaultyState
   \<and> seekToThrows faultySeekPlayer
   \<and> surfaceCalls (stateOf (applySnapshot snapJoin seekFaultyState))
       = surfaceCalls seekFaultyState @ [SeekTo 10.2]
   \<and> surfaceCalls (stateOf (applySnapshot snapDrift34 seekFaultyState))
       = surfaceCalls seekFaultyState @ [PauseVideo]"
proof -
  have h1: "playerRef watchingState = Some steadyPlayer" by (simp add: watchingState_def)
  have h2: "isPlayerReady watchingState" by (simp add: watchingState_def)
  have h3: "\<not> seekToThrows steadyPlayer" by (simp add: steadyPlayer_def)
  have f1: "playerRef seekFaultyState = Some faultySeekPlayer"
    by (simp add: seekFaultyState_def)
  have f2: "isPlayerReady seekFaultyState"
    by (simp add: seekFaultyState_def watchingState_def)
  have f3: "seekToThrows faultySeekPlayer" by (simp add: faultySeekPlayer_def)
  have d36: "\<bar>computeTargetTime snapDrift36 - getCurrentTime steadyPlayer\<bar> = 0.36"
    by (simp add: computeTargetTime_def snapDrift36_def steadyPlayer_def)
  have d34: "\<bar>computeTargetTime snapDrift34 - getCurrentTime steadyPlayer\<bar> = 0.34"
    by (simp add: computeTargetTime_def snapDrift34_def steadyPlayer_def)
  have e34: "\<bar>computeTargetTime snapDrift34 - getCurrentTime faultySeekPlayer\<bar> = 0.34"
    by (simp add: computeTargetTime_def snapDrift34_def faultySeekPlayer_def)
  have t36: "computeTargetTime snapDrift36 = 42.36" "\<not> isPlaying snapDrift36"
    by (simp_all add: computeTargetTime_def snapDrift36_def)
  have t34: "\<not> isPlaying snapDrift34"
    by (simp add: snapDrift34_def)
  have tj: "computeTargetTime snapJoin = 10.2" "isPlaying snapJoin"
    by (simp_all add: computeTargetTime_def snapJoin_def)
  have cur: "getCurrentTime steadyPlayer = 42" "getCurrentTime faultySeekPlayer = 42"
    by (simp_all add: steadyPlayer_def faultySeekPlayer_def)
  have a: "surfaceCalls (stateOf (applySnapshot snapDrift36 watchingState))
           = surfaceCalls watchingState @ [SeekTo 42.36, PauseVideo]"
    using applySnapshot_drift_correction[OF h1 h2, of snapDrift36] d36 t36 h3 by simp
  have b: "surfaceCalls (stateOf (applySnapshot snapDrift34 watchingState))
           = surfaceCalls watchingState @ [PauseVideo]"
    using applySnapshot_drift_correction[OF h1 h2, of snapDrift34] d34 t34 h3 by simp
  have c: "surfaceCalls (stateOf (applySnapshot snapJoin watchingState))
           = surfaceCalls watchingState @ [SeekTo 10.2, PlayVideo]"
    using applySnapshot_drift_correction[OF h1 h2, of snapJoin] tj h3 cur by simp
  have d: "surfaceCalls (stateOf (applySnapshot snapJoin seekFaultyState))
           = surfaceCalls seekFaultyState @ [SeekTo 10.2]"
    using applySnapshot_drift_correction[OF f1 f2, of snapJoin] tj f3 cur by simp
  have e: "surfaceCalls (stateOf (applySnapshot snapDrift34 seekFaultyState))
           = surfaceCalls seekFaultyState @ [PauseVideo]"
    using applySnapshot_drift_correction[OF f1 f2, of snapDrift34] e34 t34 by simp
  from h1 h2 d36 a d34 b tj(2) c f1 f2 f3 d e show ?thesis by blast
qed

section \<open>Local controls\<close>

lemma handlePlay_result:
  "playerRef s = Some p \<Longrightarrow> socket s = Some so \<Longrightarrow> connected so \<Longrightarrow>
   localActionResult s PlayVideo (EmitPlay (getCurrentTime p)) (playVideoThrows p)
     (handlePlay s)"
  by (simp add: localActionResult_def handlePlay_def playVideo_def emit_def setTimeout_def
      Let_def)

lemma handlePause_result:
  "playerRef s = Some p \<Longrightarrow> socket s = Some so \<Longrightarrow> connected so \<Longrightarrow>
   localActionResult s PauseVideo (EmitPause (getCurrentTime p)) (pauseVideoThrows p)
     (handlePause s)"
  by (simp add: localActionResult_def handlePause_def pauseVideo_def emit_def setTimeout_def
      Let_def)

lemma handleSeek_result:
  "playerRef s = Some p \<Longrightarrow> socket s = Some so \<Longrightarrow> connected so \<Longrightarrow>
   localActionResult s (SeekTo (getCurrentTime p + seconds))
     (EmitSeek (getCurrentTime p + seconds)) (seekToThrows p) (handleSeek seconds s)"
  by (simp add: localActionResult_def handleSeek_def seekTo_def emit_def setTimeout_def
      Let_def)

lemma disposition_local_in_flight:
  "isLocalAction s \<Longrightarrow> \<not> isRequestingSync s \<Longrightarrow>
   \<not> hasThrown (disposition snap s)
   \<and> surfaceCalls (stateOf (disposition snap s)) = surfaceCalls s
   \<and> scheduled (stateOf (disposition snap s)) = scheduled s"
  by (simp add: disposition_def)

lemma videoChange_frame:
  "isLocalAction (videoChange cv snap s) = isLocalAction s"
  "isRequestingSync (videoChange cv snap s) = isRequestingSync s"
  "surfaceCalls (videoChange cv snap s) = surfaceCalls s"
  "scheduled (videoChange cv snap s) = scheduled s"
  "hasInteracted (videoChange cv snap s) = hasInteracted s"
  "isPlayerReady (videoChange cv snap s) = isPlayerReady s"
  "playerRef (videoChange cv snap s) = playerRef s"
  by (simp_all add: videoChange_def Let_def split: option.splits)

lemma sessionState_local_in_flight:
  assumes "isLocalAction s" "\<not> isRequestingSync s"
  shows "\<not> hasThrown (sessionState cv snap s)
         \<and> surfaceCalls (stateOf (sessionState cv snap s)) = surfaceCalls s
         \<and> scheduled (stateOf (sessionState cv snap s)) = scheduled s"
proof -
  let ?s2 = "videoChange cv snap (s\<lparr>lastVersionRef := version snap\<rparr>)"
  have "isLocalAction ?s2" "\<not> isRequestingSync ?s2"
    using assms by (simp_all add: videoChange_frame)
  from disposition_local_in_flight[OF this, of snap] show ?thesis
    by (simp add: sessionState_def Let_def videoChange_frame)
qed

text \<open>
  C8, as the specification states it, fails: the viewer of \<open>seekFaultyState\<close> has a
  ready player and a connected socket, and the player's \<^verbatim>\<open>seekTo\<close> throws.
  \<^verbatim>\<open>handleSeek\<close> sets \<^verbatim>\<open>isLocalAction\<close> and issues the seek; the
  exception then leaves the handler, so nothing is emitted and no timer is scheduled to
  clear the flag.
\<close>

theorem throwing_seek_leaves_local_action:
  "playerRef seekFaultyState = Some faultySeekPlayer \<and> isPlayerReady seekFaultyState
   \<and> socket seekFaultyState = Some \<lparr>connected = True\<rparr>
   \<and> hasThrown (handleSeek 10 seekFaultyState)
   \<and> isLocalAction (stateOf (handleSeek 10 seekFaultyState))
   \<and> surfaceCalls (stateOf (handleSeek 10 seekFaultyState))
       = surfaceCalls seekFaultyState @ [SeekTo 52]
   \<and> emitted (stateOf (handleSeek 10 seekFaultyState)) = emitted seekFaultyState
   \<and> scheduled (stateOf (handleSeek 10 seekFaultyState)) = scheduled seekFaultyState"
  by (simp add: seekFaultyState_def watchingState_def faultySeekPlayer_def handleSeek_def
      seekTo_def Let_def)

text \<open>
  C8, amended. With a player instance and a connected socket, each of
  \<^verbatim>\<open>handlePlay\<close>, \<^verbatim>\<open>handlePause\<close> and \<^verbatim>\<open>handleSeek\<close> sets
  \<^verbatim>\<open>isLocalAction\<close> and issues its command on the player at once. If that call
  returns, the handler emits the matching event with the time it used and schedules a
  100ms timer; if the call throws, the exception leaves the handler, nothing is emitted
  and no timer is scheduled. The timer's callback clears the flag. While the flag is set
  and no manual sync is requested, the listener applies no snapshot: it issues no player
  call and schedules nothing.
\<close>

theorem local_action_tracker:
  "(playerRef s = Some p \<and> socket s = Some so \<and> connected so \<longrightarrow>
      localActionResult s PlayVideo (EmitPlay (getCurrentTime p)) (playVideoThrows p)
        (handlePlay s)
      \<and> localActionResult s PauseVideo (EmitPause (getCurrentTime p)) (pauseVideoThrows p)
           (handlePause s)
      \<and> localActionResult s (SeekTo (getCurrentTime p + seconds))
           (EmitSeek (getCurrentTime p + seconds)) (seekToThrows p) (handleSeek seconds s))
   \<and> \<not> isLocalAction (runCallback ClearLocalAction s)
   \<and> (isLocalAction s \<and> \<not> isRequestingSync s \<longrightarrow>
        \<not> hasThrown (sessionState cv snap s)
        \<and> surfaceCalls (stateOf (sessionState cv snap s)) = surfaceCalls s
        \<and> scheduled (stateOf (sessionState cv snap s)) = scheduled s)"
proof (intro conjI impI)
  show "\<not> isLocalAction (runCallback ClearLocalAction s)"
    by (simp add: runCallback_def)
qed (use handlePlay_result handlePause_result handleSeek_result
       sessionState_local_in_flight in blast)+

theorem local_action_tracker_witness:
  "playerRef watchingState = Some steadyPlayer
   \<and> socket watchingState = Some \<lparr>connected = True\<rparr>
   \<and> localActionResult watchingState PlayVideo (EmitPlay 42) False (handlePlay watchingState)
   \<and> localActionResult watchingState PauseVideo (EmitPause 42) False
        (handlePause watchingState)
   \<and> localActionResult watchingState (SeekTo 52) (EmitSeek 52) False
        (handleSeek 10 watchingState)
   \<and> playerRef faultyState = Some faultyPlayer
   \<and> socket faultyState = Some \<lparr>connected = True\<rparr>
   \<and> localActionResult faultyState PlayVideo (EmitPlay 42) True (handlePlay faultyState)
   \<and> isLocalAction (stateOf (handlePause watchingState))
   \<and> \<not> isRequestingSync (stateOf (handlePause watchingState))
   \<and> surfaceCalls (stateOf (sessionState [] snapSwitch (stateOf (handlePause watchingState))))
       = surfaceCalls (stateOf (handlePause watchingState))"
proof -
  have h1: "playerRef watchingState = Some steadyPlayer" by (simp add: watchingState_def)
  have h2: "socket watchingState = Some \<lparr>connected = True\<rparr>" by (simp add: watchingState_def)
  have h3: "connected \<lparr>connected = True\<rparr>" by simp
  have h4: "playVideoThrows steadyPlayer = False" "pauseVideoThrows steadyPlayer = False"
    "seekToThrows steadyPlayer = False" by (simp_all add: steadyPlayer_def)
  have t: "getCurrentTime steadyPlayer = 42" by (simp add: steadyPlayer_def)
  have k1: "playerRef faultyState = Some faultyPlayer" by (simp add: faultyState_def)
  have k2: "socket faultyState = Some \<lparr>connected = True\<rparr>"
    by (simp add: faultyState_def watchingState_def)
  have k4: "playVideoThrows faultyPlayer = True" "getCurrentTime faultyPlayer = 42"
    by (simp_all add: faultyPlayer_def)
  note W = local_action_tracker[of watchingState steadyPlayer "\<lparr>connected = True\<rparr>" 10]
  note F = local_action_tracker[of faultyState faultyPlayer "\<lparr>connected = True\<rparr>" 10]
  from W h1 h2 h3
  have p: "localActionResult watchingState PlayVideo (EmitPlay (getCurrentTime steadyPlayer))
             (playVideoThrows steadyPlayer) (handlePlay watchingState)"
    and a: "localActionResult watchingState PauseVideo (EmitPause (getCurrentTime steadyPlayer))
             (pauseVideoThrows steadyPlayer) (handlePause watchingState)"
    and b: "localActionResult watchingState (SeekTo (getCurrentTime steadyPlayer + 10))
             (EmitSeek (getCurrentTime steadyPlayer + 10)) (seekToThrows steadyPlayer)
             (handleSeek 10 watchingState)"
    by blast+
  from F k1 k2 h3
  have q: "localActionResult faultyState PlayVideo (EmitPlay (getCurrentTime faultyPlayer))
             (playVideoThrows faultyPlayer) (handlePlay faultyState)"
    by blast
  have p': "localActionResult watchingState PlayVideo (EmitPlay 42) False
              (handlePlay watchingState)"
    using p by (simp add: t h4)
  have a': "localActionResult watchingState PauseVideo (EmitPause 42) False
              (handlePause watchingState)"
    using a by (simp add: t h4)
  have b': "localActionResult watchingState (SeekTo 52) (EmitSeek 52) False
              (handleSeek 10 watchingState)"
    using b by (simp add: t h4)
  have q': "localActionResult faultyState PlayVideo (EmitPlay 42) True (handlePlay faultyState)"
    using q by (simp add: k4)
  have f: "isLocalAction (stateOf (handlePause watchingState))"
    using a' by (simp add: localActionResult_def)
  have g: "\<not> isRequestingSync (stateOf (handlePause watchingState))"
    by (simp add: watchingState_def steadyPlayer_def handlePause_def pauseVideo_def emit_def
        setTimeout_def Let_def)
  from local_action_tracker[of "stateOf (handlePause watchingState)" _ _ _ "[]" snapSwitch] f g
  have c: "surfaceCalls (stateOf (sessionState [] snapSwitch (stateOf (handlePause watchingState))))
           = surfaceCalls (stateOf (handlePause watchingState))"
    by blast
  from h1 h2 p' a' b' k1 k2 q' f g c show ?thesis by blast
qed

section \<open>Exceptions from the player\<close>

lemma handlePlay_outcome:
  "playerRef s = Some p \<Longrightarrow> socket s = Some so \<Longrightarrow> connected so \<Longrightarrow>
   localActionOutcome s (playVideoThrows p) (handlePlay s)"
  by (simp add: localActionOutcome_def handlePlay_def playVideo_def emit_def setTimeout_def
      Let_def)

lemma handlePause_outcome:
  "playerRef s = Some p \<Longrightarrow> socket s = Some so \<Longrightarrow> connected so \<Longrightarrow>
   localActionOutcome s (pauseVideoThrows p) (handlePause s)"
  by (simp add: localActionOutcome_def handlePause_def pauseVideo_def emit_def setTimeout_def
      Let_def)

lemma handleSeek_outcome:
  "playerRef s = Some p \<Longrightarrow> socket s = Some so \<Longrightarrow> connected so \<Longrightarrow>
   localActionOutcome s (seekToThrows p) (handleSeek seconds s)"
  by (simp add: localActionOutcome_def handleSeek_def seekTo_def emit_def setTimeout_def
      Let_def)

text \<open>
  C7, as the specification states it, fails: on a ready player whose
  \<^verbatim>\<open>playVideo\<close> throws, \<^verbatim>\<open>applySnapshot\<close> for a playing snapshot is
  left by the exception with \<^verbatim>\<open>applyingServerUpdate\<close> set and no timer
  scheduled, and \<^verbatim>\<open>handlePlay\<close> is left with \<^verbatim>\<open>isLocalAction\<close> set, no
  timer scheduled and nothing emitted.
\<close>

theorem throwing_playVideo_leaves_flags_set:
  "hasThrown (applySnapshot snapJoin faultyState)
   \<and> applyingServerUpdate (stateOf (applySnapshot snapJoin faultyState))
   \<and> scheduled (stateOf (applySnapshot snapJoin faultyState)) = scheduled faultyState
   \<and> hasThrown (handlePlay faultyState)
   \<and> isLocalAction (stateOf (handlePlay faultyState))
   \<and> scheduled (stateOf (handlePlay faultyState)) = scheduled faultyState
   \<and> emitted (stateOf (handlePlay faultyState)) = emitted faultyState"
  by (simp add: faultyState_def watchingState_def faultyPlayer_def snapJoin_def
      applySnapshot_def computeTargetTime_def handlePlay_def seekTo_def playVideo_def
      Let_def)

text \<open>
  C7, amended. No player call is inside a \<^verbatim>\<open>try\<close>. On a ready player
  \<^verbatim>\<open>applySnapshot\<close> always sets \<^verbatim>\<open>applyingServerUpdate\<close>, and it
  schedules the 200ms clearing timer exactly when no player call throws; it throws
  exactly when the seek it issues throws or its play or pause call throws. With a player
  and a connected socket each local control always sets \<^verbatim>\<open>isLocalAction\<close>,
  and it schedules the 100ms clearing timer exactly when its player call does not throw.
  So when a call throws, the flag stays set and that invocation schedules nothing. The
  two timer callbacks clear their flag.
\<close>

theorem flags_cleared_unless_thrown:
  "(playerRef s = Some p \<and> isPlayerReady s \<longrightarrow>
      applyingServerUpdate (stateOf (applySnapshot snap s))
      \<and> scheduled (stateOf (applySnapshot snap s))
          = scheduled s @ (if hasThrown (applySnapshot snap s) then []
                           else [(200, ClearApplyingServerUpdate)])
      \<and> hasThrown (applySnapshot snap s)
          = ((\<bar>computeTargetTime snap - getCurrentTime p\<bar> > 0.35 \<and> seekToThrows p)
             \<or> (if isPlaying snap then playVideoThrows p else pauseVideoThrows p)))
   \<and> (playerRef s = Some p \<and> socket s = Some so \<and> connected so \<longrightarrow>
        localActionOutcome s (playVideoThrows p) (handlePlay s)
        \<and> localActionOutcome s (pauseVideoThrows p) (handlePause s)
        \<and> localActionOutcome s (seekToThrows p) (handleSeek seconds s))
   \<and> \<not> applyingServerUpdate (runCallback ClearApplyingServerUpdate s)
   \<and> \<not> isLocalAction (runCallback ClearLocalAction s)"
proof (intro conjI impI)
  show "\<not> applyingServerUpdate (runCallback ClearApplyingServerUpdate s)"
    by (simp add: runCallback_def)
  show "\<not> isLocalAction (runCallback ClearLocalAction s)"
    by (simp add: runCallback_def)
qed (use applySnapshot_flag applySnapshot_scheduled applySnapshot_thrown
       handlePlay_outcome handlePause_outcome handleSeek_outcome in blast)+

theorem flags_cleared_unless_thrown_witness:
  "playerRef watchingState = Some steadyPlayer \<and> isPlayerReady watchingState
   \<and> socket watchingState = Some \<lparr>connected = True\<rparr>
   \<and> \<not> hasThrown (applySnapshot snapJoin watchingState)
   \<and> scheduled (stateOf (applySnapshot snapJoin watchingState))
       = scheduled watchingState @ [(200, ClearApplyingServerUpdate)]
   \<and> localActionOutcome watchingState False (handlePlay watchingState)
   \<and> playerRef faultyState = Some faultyPlayer \<and> isPlayerReady faultyState
   \<and> socket faultyState = Some \<lparr>connected = True\<rparr>
   \<and> hasThrown (applySnapshot snapJoin faultyState)
   \<and> scheduled (stateOf (applySnapshot snapJoin faultyState)) = scheduled faultyState
   \<and> localActionOutcome faultyState True (handlePlay faultyState)"
proof -
  have w: "playerRef watchingState = Some steadyPlayer" "isPlayerReady watchingState"
    "socket watchingState = Some \<lparr>connected = True\<rparr>"
    by (simp_all add: watchingState_def)
  have f: "playerRef faultyState = Some faultyPlayer" "isPlayerReady faultyState"
    "socket faultyState = Some \<lparr>connected = True\<rparr>"
    by (simp_all add: faultyState_def watchingState_def)
  have c: "connected \<lparr>connected = True\<rparr>" by simp
  have sp: "\<not> seekToThrows steadyPlayer" "\<not> playVideoThrows steadyPlayer"
    by (simp_all add: steadyPlayer_def)
  have fp: "\<not> seekToThrows faultyPlayer" "playVideoThrows faultyPlayer"
    by (simp_all add: faultyPlayer_def)
  have pl: "isPlaying snapJoin" by (simp add: snapJoin_def)
  note W = flags_cleared_unless_thrown[of watchingState steadyPlayer snapJoin
             "\<lparr>connected = True\<rparr>" 10]
  note F = flags_cleared_unless_thrown[of faultyState faultyPlayer snapJoin
             "\<lparr>connected = True\<rparr>" 10]
  have w1: "\<not> hasThrown (applySnapshot snapJoin watchingState)"
    using W w sp pl by simp
  have w2: "scheduled (stateOf (applySnapshot snapJoin watchingState))
            = scheduled watchingState @ [(200, ClearApplyingServerUpdate)]"
    using W w w1 by simp
  have w3: "localActionOutcome watchingState False (handlePlay watchingState)"
    using W w c sp by simp
  have f1: "hasThrown (applySnapshot snapJoin faultyState)"
    using F f fp pl by simp
  have f2: "scheduled (stateOf (applySnapshot snapJoin faultyState)) = scheduled faultyState"
    using F f f1 by simp
  have f3: "localActionOutcome faultyState True (handlePlay faultyState)"
    using F f c fp by simp
  from w w1 w2 w3 f f1 f2 f3 show ?thesis by blast
qed

section \<open>Retrying the construction\<close>

lemma initPlayerRetry_Some_present:
  assumes "initPlayerRetry vid divAt c k s = Some y"
  shows "\<exists>j. k \<le> j \<and> divAt j"
proof (rule initPlayerRetry.raw_induct
         [where P = "\<lambda>vid divAt c k s y. \<exists>j. k \<le> j \<and> divAt j", OF _ assms])
  fix rec :: "string \<Rightarrow> (nat \<Rightarrow> bool) \<Rightarrow> player option \<Rightarrow> nat \<Rightarrow> wp_state \<Rightarrow> wp_state option"
  fix vid divAt c k s y
  assume IH: "\<And>vid divAt c k s y. rec vid divAt c k s = Some y \<Longrightarrow> \<exists>j. k \<le> j \<and> divAt j"
  assume eq: "(if \<not> divAt k then rec vid divAt c (Suc k) (initPlayer vid False c s)
               else Some (initPlayer vid True c s)) = Some y"
  show "\<exists>j. k \<le> j \<and> divAt j"
  proof (cases "divAt k")
    case True
    then show ?thesis by blast
  next
    case False
    with eq have "rec vid divAt c (Suc k) (initPlayer vid False c s) = Some y" by simp
    from IH[OF this] obtain j where j: "Suc k \<le> j" "divAt j" by blast
    from j(1) have "k \<le> j" by simp
    with j(2) show ?thesis by blast
  qed
qed

lemma initPlayer_missing:
  "initPlayer vid False c s =
     s\<lparr>notices := notices s @ [LogError ''Player div not found! Retrying...''],
       scheduled := scheduled s @ [(500, InitPlayer)]\<rparr>"
  by (simp add: initPlayer_def setTimeout_def logError_def)

lemma failed_attempts:
  "((initPlayer vid False c) ^^ n) s =
     s\<lparr>notices := notices s @ replicate n (LogError ''Player div not found! Retrying...''),
       scheduled := scheduled s @ replicate n (500, InitPlayer)\<rparr>"
proof (induction n arbitrary: s)
  case 0
  then show ?case by simp
next
  case (Suc n)
  have "((initPlayer vid False c) ^^ Suc n) s
        = ((initPlayer vid False c) ^^ n) (initPlayer vid False c s)"
    by (simp add: funpow_swap1)
  also have "\<dots> = (initPlayer vid False c s)
       \<lparr>notices := notices (initPlayer vid False c s)
                    @ replicate n (LogError ''Player div not found! Retrying...''),
        scheduled := scheduled (initPlayer vid False c s) @ replicate n (500, InitPlayer)\<rparr>"
    by (rule Suc)
  also have "\<dots> = s
       \<lparr>notices := notices s @ replicate (Suc n) (LogError ''Player div not found! Retrying...''),
        scheduled := scheduled s @ replicate (Suc n) (500, InitPlayer)\<rparr>"
    by (simp add: initPlayer_missing)
  finally show ?case .
qed

lemma initPlayerRetry_unfolds:
  "(\<forall>j<n. \<not> divAt (k + j)) \<Longrightarrow> divAt (k + n) \<Longrightarrow>
   initPlayerRetry vid divAt c k s
   = Some (initPlayer vid True c (((initPlayer vid False c) ^^ n) s))"
proof (induction n arbitrary: k s)
  case 0
  then show ?case by (subst initPlayerRetry.simps) simp
next
  case (Suc n)
  have a: "\<not> divAt k" using Suc.prems(1)[rule_format, of 0] by simp
  have b: "\<forall>j<n. \<not> divAt (Suc k + j)"
  proof (intro allI impI)
    fix j assume "j < n"
    then have "Suc j < Suc n" by simp
    with Suc.prems(1) have "\<not> divAt (k + Suc j)" by blast
    then show "\<not> divAt (Suc k + j)" by simp
  qed
  have c: "divAt (Suc k + n)" using Suc.prems(2) by simp
  have "initPlayerRetry vid divAt c k s
        = initPlayerRetry vid divAt c (Suc k) (initPlayer vid False c s)"
    using a by (subst initPlayerRetry.simps) simp
  also have "\<dots> = Some (initPlayer vid True c
                       (((initPlayer vid False c) ^^ n) (initPlayer vid False c s)))"
    by (rule Suc.IH[OF b c])
  finally show ?case by (simp add: funpow_swap1)
qed

text \<open>
  C9, as the specification states it, fails: with the container never there the chain of
  attempts does not end. No attempt count is kept and no fatal error is reported.
\<close>

theorem initPlayerRetry_never_ends:
  "initPlayerRetry ''abc'' containerMissing (Some startingPlayer) 0 connectedState = None"
proof (cases "initPlayerRetry ''abc'' containerMissing (Some startingPlayer) 0 connectedState")
  case None
  then show ?thesis .
next
  case (Some y)
  from initPlayerRetry_Some_present[OF this] show ?thesis
    by (simp add: containerMissing_def)
qed

text \<open>
  C9, amended. While the container is missing, each attempt logs an error and schedules
  the next attempt 500ms later, without any bound on the number of attempts and without
  reporting a fatal error. The chain ends at the first attempt that finds the container:
  after \<open>n\<close> failed attempts the state differs from the starting one by \<open>n\<close> logged
  errors and \<open>n\<close> timers of 500ms, and that attempt goes on to construct the player.
\<close>

theorem initPlayerRetry_until_container:
  assumes "\<forall>j<n. \<not> divAt (k + j)" and "divAt (k + n)"
  shows "initPlayerRetry vid divAt c k s
         = Some (initPlayer vid True c
                  (s\<lparr>notices := notices s
                       @ replicate n (LogError ''Player div not found! Retrying...''),
                     scheduled := scheduled s @ replicate n (500, InitPlayer)\<rparr>))"
  using initPlayerRetry_unfolds[OF assms, of vid c s] by (simp add: failed_attempts)

theorem initPlayerRetry_until_container_witness:
  "\<not> containerLate 0 \<and> \<not> containerLate 1 \<and> \<not> containerLate 2 \<and> containerLate 3
   \<and> initPlayerRetry ''abc'' containerLate (Some startingPlayer) 0 connectedState
      = Some (connectedState
               \<lparr>playerRef := Some startingPlayer,
                notices := replicate 3 (LogError ''Player div not found! Retrying...''),
                scheduled := replicate 3 (500, InitPlayer)\<rparr>)"
proof -
  have h1: "\<forall>j<3. \<not> containerLate (0 + j)" by (simp add: containerLate_def)
  have h2: "containerLate (0 + 3)" by (simp add: containerLate_def)
  have "initPlayerRetry ''abc'' containerLate (Some startingPlayer) 0 connectedState
        = Some (connectedState
                 \<lparr>playerRef := Some startingPlayer,
                  notices := replicate 3 (LogError ''Player div not found! Retrying...''),
                  scheduled := replicate 3 (500, InitPlayer)\<rparr>)"
    unfolding initPlayerRetry_until_container[OF h1 h2]
    by (simp add: initPlayer_def connectedState_def initialState_def startingPlayer_def)
  moreover have "\<not> containerLate 0 \<and> \<not> containerLate 1 \<and> \<not> containerLate 2
                 \<and> containerLate 3"
    by (simp add: containerLate_def)
  ultimately show ?thesis by blast
qed

section \<open>A snapshot that changes the video\<close>

lemma videoChange_noted:
  assumes "videoId snap = Some v" "v \<noteq> []" "v \<noteq> cv"
  shows "videoChange cv snap (s\<lparr>lastVersionRef := version snap\<rparr>) = notedVideo v snap s"
  using assms by (cases s) (auto simp: videoChange_def notedVideo_def Let_def)

text \<open>When the player is not ready, a snapshot with a new video id is recorded, stored
  as the pending one and the listener returns, with no call on the player.\<close>

lemma sessionState_video_change_not_ready:
  assumes "lastVersionRef s < version snap" "videoId snap = Some v" "v \<noteq> []" "v \<noteq> cv"
    and "\<not> isPlayerReady s"
  shows "sessionState cv snap s
         = Returned ((notedVideo v snap s)\<lparr>latestSessionState := Some snap\<rparr>)"
proof -
  have "isPlayerReady (notedVideo v snap s) = isPlayerReady s"
    by (simp add: notedVideo_def)
  then show ?thesis
    using assms(1,5)
    by (simp add: sessionState_def Let_def videoChange_noted[OF assms(2-4)])
qed

text \<open>
  C5. The listener reads \<^verbatim>\<open>isPlayerReady\<close> before the player effect has
  reset it for the new video. The viewer of \<open>watchingState\<close> has a ready player on
  video \<^verbatim>\<open>abc\<close>, and a snapshot for video \<^verbatim>\<open>xyz\<close> arrives. The
  listener notes the new id and does not return: the snapshot is applied to the old
  player (a seek and a pause) and is not stored as pending, with the id the closure
  really holds as well as with the current one. When the new player has been constructed
  and reports ready there is nothing to flush, so it receives no call at all.
\<close>

theorem video_change_applied_to_old_player:
  "currentVideoId watchingState = ''abc'' \<and> videoId snapSwitch = Some ''xyz''
   \<and> playerRef watchingState = Some steadyPlayer \<and> playerVideoId steadyPlayer = ''abc''
   \<and> surfaceCalls (stateOf (sessionState ''abc'' snapSwitch watchingState))
       = surfaceCalls watchingState @ [SeekTo 0, PauseVideo]
   \<and> latestSessionState (stateOf (sessionState ''abc'' snapSwitch watchingState)) = None
   \<and> sessionState [] snapSwitch watchingState = sessionState ''abc'' snapSwitch watchingState
   \<and> playerRef (run switchLostTrace watchingState) = Some freshPlayer
   \<and> isPlayerReady (run switchLostTrace watchingState)
   \<and> surfaceCalls (run switchLostTrace watchingState)
       = surfaceCalls watchingState @ [SeekTo 0, PauseVideo, Destroy]
   \<and> latestSessionState (run switchLostTrace watchingState) = None"
  by (simp add: run_def switchLostTrace_def watchingState_def snapSwitch_def steadyPlayer_def
      freshPlayer_def handler_defs Let_def)

section \<open>The flush on readiness\<close>

text \<open>
  C6, as the specification states it, fails: in \<open>switchingState\<close> a snapshot is pending
  and \<^verbatim>\<open>applyingServerUpdate\<close> is still set. \<^verbatim>\<open>onReady\<close> hands the
  pending snapshot to \<^verbatim>\<open>applySnapshot\<close>, which seeks and pauses. The four cases
  of the listener would have done nothing in that state (the last case), and the listener
  as a whole would have dropped the snapshot as stale, its version being the last one
  recorded.
\<close>

theorem onReady_flush_skips_checks:
  "latestSessionState switchingState = Some snapAfter
   \<and> applyingServerUpdate switchingState
   \<and> surfaceCalls (stateOf (onReady switchingState))
       = surfaceCalls switchingState @ [SeekTo 5, PauseVideo]
   \<and> disposition snapAfter switchedReadyState = Returned switchedReadyState
   \<and> sessionState [] snapAfter switchedReadyState = Returned switchedReadyState"
  by (simp add: switchedReadyState_def switchingState_def snapAfter_def freshPlayer_def
      onReady_def sessionState_def disposition_def applySnapshot_def computeTargetTime_def
      seekTo_def pauseVideo_def setTimeout_def Let_def)

text \<open>
  C6, amended. When \<^verbatim>\<open>onReady\<close> fires with a pending snapshot and a player
  instance, the ready flag is set and the snapshot is handed straight to
  \<^verbatim>\<open>applySnapshot\<close>: \<^verbatim>\<open>applyingServerUpdate\<close> is set, a seek is
  issued if the drift exceeds 0.35 seconds, and play or pause follows unless that seek
  threw. Neither the version filter nor the checks of \<^verbatim>\<open>applyingServerUpdate\<close>
  and \<^verbatim>\<open>isLocalAction\<close> are run again, so this holds whatever those are. If no
  player call throws, the pending slot is then cleared and the 200ms timer scheduled; if
  one throws, the exception leaves \<^verbatim>\<open>onReady\<close>, the snapshot stays pending and
  no timer is scheduled. The case of a playing snapshot before any click is left out
  here.
\<close>

theorem onReady_flush_applies_directly:
  assumes "latestSessionState s = Some snap" "playerRef s = Some p"
    and "isPlaying snap \<longrightarrow> hasInteracted s"
  shows "isPlayerReady (stateOf (onReady s))
         \<and> applyingServerUpdate (stateOf (onReady s))
         \<and> surfaceCalls (stateOf (onReady s))
             = surfaceCalls s
               @ (if \<bar>computeTargetTime snap - getCurrentTime p\<bar> > 0.35
                  then [SeekTo (computeTargetTime snap)] else [])
               @ (if \<bar>computeTargetTime snap - getCurrentTime p\<bar> > 0.35 \<and> seekToThrows p
                  then [] else [if isPlaying snap then PlayVideo else PauseVideo])
         \<and> hasThrown (onReady s)
             = ((\<bar>computeTargetTime snap - getCurrentTime p\<bar> > 0.35 \<and> seekToThrows p)
                \<or> (if isPlaying snap then playVideoThrows p else pauseVideoThrows p))
         \<and> latestSessionState (stateOf (onReady s))
             = (if hasThrown (onReady s) then Some snap else None)
         \<and> scheduled (stateOf (onReady s))
             = scheduled s @ (if hasThrown (onReady s) then []
                              else [(200, ClearApplyingServerUpdate)])"
  using assms(1,2)
  by (simp add: onReady_def applySnapshot_def seekTo_def playVideo_def pauseVideo_def
      setTimeout_def Let_def)

theorem onReady_flush_applies_directly_witness:
  "latestSessionState joiningInteractedState = Some snapJoin
   \<and> playerRef joiningInteractedState = Some startingPlayer
   \<and> isPlaying snapJoin \<and> hasInteracted joiningInteractedState
   \<and> \<not> hasThrown (onReady joiningInteractedState)
   \<and> latestSessionState (stateOf (onReady joiningInteractedState)) = None
   \<and> surfaceCalls (stateOf (onReady joiningInteractedState)) = [SeekTo 10.2, PlayVideo]
   \<and> scheduled (stateOf (onReady joiningInteractedState))
       = [(100, InitPlayer), (200, ClearApplyingServerUpdate)]
   \<and> latestSessionState joiningFaultyState = Some snapJoin
   \<and> playerRef joiningFaultyState = Some faultyPlayer
   \<and> hasInteracted joiningFaultyState
   \<and> hasThrown (onReady joiningFaultyState)
   \<and> latestSessionState (stateOf (onReady joiningFaultyState)) = Some snapJoin
   \<and> surfaceCalls (stateOf (onReady joiningFaultyState)) = [SeekTo 10.2, PlayVideo]
   \<and> scheduled (stateOf (onReady joiningFaultyState)) = [(100, InitPlayer)]"
proof -
  have h1: "latestSessionState joiningInteractedState = Some snapJoin"
    and h2: "playerRef joiningInteractedState = Some startingPlayer"
    and h6: "hasInteracted joiningInteractedState"
    by (simp_all add: joiningInteractedState_def joiningState_def)
  have k1: "latestSessionState joiningFaultyState = Some snapJoin"
    and k2: "playerRef joiningFaultyState = Some faultyPlayer"
    and k6: "hasInteracted joiningFaultyState"
    by (simp_all add: joiningFaultyState_def joiningInteractedState_def joiningState_def)
  have sp: "seekToThrows startingPlayer = False" "playVideoThrows startingPlayer = False"
    "getCurrentTime startingPlayer = 0"
    by (simp_all add: startingPlayer_def)
  have fp: "seekToThrows faultyPlayer = False" "playVideoThrows faultyPlayer = True"
    "getCurrentTime faultyPlayer = 42"
    by (simp_all add: faultyPlayer_def)
  have pl: "isPlaying snapJoin" by (simp add: snapJoin_def)
  have h7: "isPlaying snapJoin \<longrightarrow> hasInteracted joiningInteractedState" using h6 by simp
  have k7: "isPlaying snapJoin \<longrightarrow> hasInteracted joiningFaultyState" using k6 by simp
  have tgt: "computeTargetTime snapJoin = 10.2"
    by (simp add: computeTargetTime_def snapJoin_def)
  have before: "surfaceCalls joiningInteractedState = []"
    "scheduled joiningInteractedState = [(100, InitPlayer)]"
    "surfaceCalls joiningFaultyState = []"
    "scheduled joiningFaultyState = [(100, InitPlayer)]"
    by (simp_all add: joiningFaultyState_def joiningInteractedState_def joiningState_def)
  note R = onReady_flush_applies_directly[OF h1 h2 h7]
  note F = onReady_flush_applies_directly[OF k1 k2 k7]
  have a0: "\<not> hasThrown (onReady joiningInteractedState)"
    using R pl tgt sp by simp
  have a: "latestSessionState (stateOf (onReady joiningInteractedState)) = None"
    using R a0 by simp
  have b: "surfaceCalls (stateOf (onReady joiningInteractedState)) = [SeekTo 10.2, PlayVideo]"
    using R pl tgt sp before by simp
  have c: "scheduled (stateOf (onReady joiningInteractedState))
           = [(100, InitPlayer), (200, ClearApplyingServerUpdate)]"
    using R a0 before by simp
  have d0: "hasThrown (onReady joiningFaultyState)"
    using F pl tgt fp by simp
  have d: "latestSessionState (stateOf (onReady joiningFaultyState)) = Some snapJoin"
    using F d0 by simp
  have e: "surfaceCalls (stateOf (onReady joiningFaultyState)) = [SeekTo 10.2, PlayVideo]"
    using F pl tgt fp before by simp
  have f: "scheduled (stateOf (onReady joiningFaultyState)) = [(100, InitPlayer)]"
    using F d0 before by simp
  from h1 h2 pl h6 a0 a b c k1 k2 k6 d0 d e f show ?thesis by blast
qed

section \<open>The interaction gate\<close>

text \<open>On the listener's path the gate holds: before any click and with no manual sync
  requested, a playing snapshot leads to no player call; on a ready player it is stored
  and the banner is raised.\<close>

lemma disposition_gate:
  "isPlaying snap \<Longrightarrow> \<not> hasInteracted s \<Longrightarrow> \<not> isRequestingSync s \<Longrightarrow>
   disposition snap s
   = Returned (s\<lparr>needsUserInteraction := True, latestSessionState := Some snap\<rparr>)"
  by (simp add: disposition_def)

lemma sessionState_gate:
  assumes "isPlaying snap" "\<not> hasInteracted s" "\<not> isRequestingSync s"
  shows "surfaceCalls (stateOf (sessionState cv snap s)) = surfaceCalls s"
proof -
  let ?s2 = "videoChange cv snap (s\<lparr>lastVersionRef := version snap\<rparr>)"
  have "\<not> hasInteracted ?s2" "\<not> isRequestingSync ?s2"
    using assms by (simp_all add: videoChange_frame)
  from disposition_gate[OF assms(1) this] show ?thesis
    by (simp add: sessionState_def Let_def videoChange_frame)
qed

text \<open>
  C4. The flush in \<^verbatim>\<open>onReady\<close> does not have the gate. For the viewer of
  \<open>joiningState\<close>, who joined while the video plays for the others and has clicked
  nothing, the playing snapshot is pending and the banner is up; when the new player
  reports ready, \<^verbatim>\<open>playVideo\<close> is called all the same.
\<close>

theorem onReady_plays_before_interaction:
  "\<not> hasInteracted joiningState \<and> \<not> isRequestingSync joiningState
   \<and> needsUserInteraction joiningState
   \<and> latestSessionState joiningState = Some snapJoin \<and> isPlaying snapJoin
   \<and> surfaceCalls joiningState = []
   \<and> surfaceCalls (stateOf (onReady joiningState)) = [SeekTo 10.2, PlayVideo]
   \<and> \<not> hasInteracted (stateOf (onReady joiningState))"
  by (simp add: joiningState_def snapJoin_def startingPlayer_def onReady_def
      applySnapshot_def computeTargetTime_def seekTo_def playVideo_def setTimeout_def
      Let_def)

end
